theory Spec2Isabelle
  imports Main "HOL-Library.Word"
begin

unbundle bit_operations_syntax

section \<open>AT91 power management (arch/arm/mach-at91/pm.c)\<close>

text \<open>
  A shallow embedding of \<^verbatim>\<open>pm.c\<close>. The file-scope variables of the C file form the record
  \<open>pm_state\<close>; every call to a collaborator outside the file (pin control, caches, the
  relocated routine, the log, the suspend framework) is appended to the \<open>trace\<close> field in
  program order, so that "is never invoked" and "exactly once" are statements about a list.
  A kernel \<^verbatim>\<open>panic\<close>, a call through a null function pointer and a store past the end of
  \<^verbatim>\<open>at91_ramc_base\<close> end the run with a value of type \<open>fatal\<close>.
\<close>

subsection \<open>Machine types\<close>

type_synonym u32 = "32 word"

text \<open>Pointers of the 32-bit ARM target; \<open>NULL\<close> is the zero address.\<close>

type_synonym ptr = "32 word"

definition NULL :: ptr where
  "NULL = 0"

text \<open>\<^verbatim>\<open>suspend_state_t\<close> is a typedef of \<^verbatim>\<open>int\<close>; only equality is ever applied to it.\<close>

type_synonym suspend_state_t = "32 word"

subsection \<open>Constants and macros of headers outside the file\<close>

text \<open>
  \<^verbatim>\<open>pm.c\<close> takes these names from \<^verbatim>\<open>linux/suspend.h\<close>, \<^verbatim>\<open>linux/clk/at91_pmc.h\<close>, \<^verbatim>\<open>pm.h\<close> and
  \<^verbatim>\<open>mach/hardware.h\<close>. Their values are not part of the file, so every function below takes
  them as the parameter \<open>c\<close>.
\<close>

record hdr =
  PM_SUSPEND_ON :: suspend_state_t
  PM_SUSPEND_STANDBY :: suspend_state_t
  PM_SUSPEND_MEM :: suspend_state_t
  AT91_PMC_SCSR :: u32
  AT91_PMC_PCKR :: "nat \<Rightarrow> u32"
  AT91_CKGR_UCKR :: u32
  AT91_PMC_SR :: u32
  AT91_PMC_PCK0 :: u32
  AT91_PMC_CSS :: u32
  AT91_PMC_CSS_SLOW :: u32
  AT91_PMC_UPLLEN :: u32
  AT91_PMC_LOCKB :: u32
  AT91_PM_MODE :: "u32 \<Rightarrow> u32"
  AT91_PM_SLOW_CLOCK :: u32
  AT91_PM_DDRC_PID :: "u32 \<Rightarrow> u32"
  AT91_PM_IS_SAMA5D4 :: "u32 \<Rightarrow> u32"
  AT91_PM_SAMA5D4_BIT :: u32
  at91_pmc_base :: ptr

text \<open>The constants that only the per-variant initialisers use.\<close>

record variant_hdr =
  AT91_MEMCTRL_MC :: u32
  AT91_MEMCTRL_SDRAMC :: u32
  AT91_MEMCTRL_DDRSDR :: u32
  AT91RM9200_PMC_UHP :: u32
  AT91RM9200_PMC_UDP :: u32
  AT91SAM926x_PMC_UHP :: u32
  AT91SAM926x_PMC_UDP :: u32
  SAMA5D3_ID_MPDDRC :: u32
  SAMA5D4_ID_MPDDRC :: u32
  AT91RM9200_SDRAMC_LPR :: u32

subsection \<open>State of the file and observable calls\<close>

text \<open>The arguments of the four \<^verbatim>\<open>pr_err\<close> calls of \<^verbatim>\<open>at91_pm_verify_clocks\<close>.\<close>

datatype clock_err =
  Usb_still_active
| Pck_src nat u32
| Usb_pll_running
| Pll_b_running

datatype warning =
  Ramc_no_standby
| Sram_no_device
| Sram_pool_unavailable
| Sram_alloc_failed
| Sram_could_not_map

datatype event =
  Pmc_read u32
| Pr_err clock_err
| Pr_warn warning
| Pr_info_pm_not_supported
| Pr_debug_bogus_state suspend_state_t
| Pinctrl_gpio_suspend
| Pinctrl_gpio_resume
| Flush_cache_all
| Outer_disable
| Outer_resume
| Suspend_sram_fn ptr ptr ptr ptr u32
| Cpu_do_idle
| Ramc_write nat u32 u32
| Platform_device_register
| Suspend_set_ops

datatype fatal =
  Panic_unable_to_map_ramc nat
| Panic_no_ramc_node
| Ramc_base_out_of_bounds nat
| Null_function_call

record at91_pm_data_t =
  uhp_udp_mask :: u32
  memctrl :: u32
  ddrc_pid :: u32
  is_sama5d4 :: bool

text \<open>
  \<open>at91_ramc_base\<close> is the two-entry array, \<open>cpuidle_platform_data\<close> is
  \<^verbatim>\<open>at91_cpuidle_device.dev.platform_data\<close>.
\<close>

record pm_state =
  at91_pm_data :: at91_pm_data_t
  at91_ramc_base :: "ptr \<times> ptr"
  target_state :: suspend_state_t
  at91_suspend_sram_fn :: ptr
  cpuidle_platform_data :: ptr
  trace :: "event list"

text \<open>Static storage is zero at boot.\<close>

definition boot_state :: pm_state where
  "boot_state =
     \<lparr>at91_pm_data = \<lparr>uhp_udp_mask = 0, memctrl = 0, ddrc_pid = 0, is_sama5d4 = False\<rparr>,
      at91_ramc_base = (NULL, NULL),
      target_state = 0,
      at91_suspend_sram_fn = NULL,
      cpuidle_platform_data = NULL,
      trace = []\<rparr>"

definition emit :: "event \<Rightarrow> pm_state \<Rightarrow> pm_state" where
  "emit e s = s\<lparr>trace := trace s @ [e]\<rparr>"

text \<open>The calls made between two states of one run.\<close>

definition new_events :: "pm_state \<Rightarrow> pm_state \<Rightarrow> event list" where
  "new_events s s' = drop (length (trace s)) (trace s')"

subsection \<open>The suspend state machine\<close>

definition at91_pm_valid_state :: "hdr \<Rightarrow> suspend_state_t \<Rightarrow> int" where
  "at91_pm_valid_state c state =
     (if state = PM_SUSPEND_ON c \<or> state = PM_SUSPEND_STANDBY c \<or> state = PM_SUSPEND_MEM c
      then 1 else 0)"

definition at91_pm_begin :: "suspend_state_t \<Rightarrow> pm_state \<Rightarrow> int \<times> pm_state" where
  "at91_pm_begin state s = (0, s\<lparr>target_state := state\<rparr>)"

definition at91_suspend_entering_slow_clock :: "hdr \<Rightarrow> pm_state \<Rightarrow> int" where
  "at91_suspend_entering_slow_clock c s = (if target_state s = PM_SUSPEND_MEM c then 1 else 0)"

definition at91_pm_end :: "hdr \<Rightarrow> pm_state \<Rightarrow> pm_state" where
  "at91_pm_end c s = s\<lparr>target_state := PM_SUSPEND_ON c\<rparr>"

subsection \<open>The clock validator\<close>

text \<open>
  \<open>pmc\<close> is the register file of the power-management controller as \<^verbatim>\<open>at91_pmc_read\<close>
  sees it during the call. The loop over \<^verbatim>\<open>PCK0..PCK3\<close> returns \<open>False\<close> where the C code
  returns 0 from inside the loop.
\<close>

function verify_pck :: "hdr \<Rightarrow> (u32 \<Rightarrow> u32) \<Rightarrow> u32 \<Rightarrow> nat \<Rightarrow> pm_state \<Rightarrow> bool \<times> pm_state" where
  "verify_pck c pmc scsr i s =
     (if i < 4 then
        (if scsr AND push_bit i (AT91_PMC_PCK0 c) = 0 then verify_pck c pmc scsr (i + 1) s
         else
           (let s1 = emit (Pmc_read (AT91_PMC_PCKR c i)) s;
                css = pmc (AT91_PMC_PCKR c i) AND AT91_PMC_CSS c
            in if css \<noteq> AT91_PMC_CSS_SLOW c then (False, emit (Pr_err (Pck_src i css)) s1)
               else verify_pck c pmc scsr (i + 1) s1))
      else (True, s))"
  by pat_completeness auto
termination
  by (relation "measure (\<lambda>(c, pmc, scsr, i, s). 4 - i)") auto

definition at91_pm_verify_clocks :: "hdr \<Rightarrow> (u32 \<Rightarrow> u32) \<Rightarrow> pm_state \<Rightarrow> int \<times> pm_state" where
  "at91_pm_verify_clocks c pmc s =
     (let s1 = emit (Pmc_read (AT91_PMC_SCSR c)) s;
          scsr = pmc (AT91_PMC_SCSR c)
      in if scsr AND uhp_udp_mask (at91_pm_data s1) \<noteq> 0
         then (0, emit (Pr_err Usb_still_active) s1)
         else
           (case verify_pck c pmc scsr 0 s1 of
              (False, s2) \<Rightarrow> (0, s2)
            | (True, s2) \<Rightarrow>
                (let s3 = emit (Pmc_read (AT91_CKGR_UCKR c)) s2
                 in if pmc (AT91_CKGR_UCKR c) AND AT91_PMC_UPLLEN c \<noteq> 0
                    then (0, emit (Pr_err Usb_pll_running) s3)
                    else
                      (let s4 = emit (Pmc_read (AT91_PMC_SR c)) s3
                       in if pmc (AT91_PMC_SR c) AND AT91_PMC_LOCKB c \<noteq> 0
                          then (0, emit (Pr_err Pll_b_running) s4)
                          else (1, s4)))))"

subsection \<open>Entering a low-power state\<close>

text \<open>The local \<^verbatim>\<open>pm_data\<close> of \<^verbatim>\<open>at91_pm_suspend\<close> after its three \<^verbatim>\<open>|=\<close>.\<close>

definition pm_data_word :: "hdr \<Rightarrow> at91_pm_data_t \<Rightarrow> suspend_state_t \<Rightarrow> u32" where
  "pm_data_word c d state =
     memctrl d
       OR (if state = PM_SUSPEND_MEM c then AT91_PM_MODE c (AT91_PM_SLOW_CLOCK c) else 0)
       OR AT91_PM_DDRC_PID c (ddrc_pid d)
       OR (if is_sama5d4 d then AT91_PM_IS_SAMA5D4 c (AT91_PM_SAMA5D4_BIT c) else 0)"

definition at91_pm_suspend :: "hdr \<Rightarrow> suspend_state_t \<Rightarrow> pm_state \<Rightarrow> fatal + pm_state" where
  "at91_pm_suspend c state s =
     (let pm_data = pm_data_word c (at91_pm_data s) state;
          s1 = emit Outer_disable (emit Flush_cache_all s)
      in if at91_suspend_sram_fn s1 = NULL then Inl Null_function_call
         else
           Inr (emit Outer_resume
                  (emit (Suspend_sram_fn (at91_suspend_sram_fn s1) (at91_pmc_base c)
                           (fst (at91_ramc_base s1)) (snd (at91_ramc_base s1)) pm_data) s1)))"

text \<open>The \<^verbatim>\<open>switch\<close> of \<^verbatim>\<open>at91_pm_enter\<close>, up to the label \<^verbatim>\<open>error\<close>.\<close>

definition enter_switch ::
  "hdr \<Rightarrow> (u32 \<Rightarrow> u32) \<Rightarrow> suspend_state_t \<Rightarrow> pm_state \<Rightarrow> fatal + pm_state" where
  "enter_switch c pmc state s =
     (if state = PM_SUSPEND_MEM c then
        (case at91_pm_verify_clocks c pmc s of
           (r, s1) \<Rightarrow> if r = 0 then Inr s1 else at91_pm_suspend c state s1)
      else if state = PM_SUSPEND_STANDBY c then at91_pm_suspend c state s
      else if state = PM_SUSPEND_ON c then Inr (emit Cpu_do_idle s)
      else Inr (emit (Pr_debug_bogus_state state) s))"

definition at91_pm_enter ::
  "hdr \<Rightarrow> (u32 \<Rightarrow> u32) \<Rightarrow> suspend_state_t \<Rightarrow> pm_state \<Rightarrow> fatal + (int \<times> pm_state)" where
  "at91_pm_enter c pmc state s =
     (case enter_switch c pmc state (emit Pinctrl_gpio_suspend s) of
        Inl e \<Rightarrow> Inl e
      | Inr s1 \<Rightarrow> Inr (0, emit Pinctrl_gpio_resume (s1\<lparr>target_state := PM_SUSPEND_ON c\<rparr>)))"

subsection \<open>Memory-controller discovery\<close>

definition at91_pm_set_standby :: "ptr \<Rightarrow> pm_state \<Rightarrow> pm_state" where
  "at91_pm_set_standby at91_standby s =
     (if at91_standby \<noteq> NULL then s\<lparr>cpuidle_platform_data := at91_standby\<rparr> else s)"

text \<open>
  One step of \<^verbatim>\<open>for_each_matching_node_and_match(np, ramc_ids, &of_id)\<close>: what
  \<^verbatim>\<open>of_iomap(np, 0)\<close> returns for the node and the \<^verbatim>\<open>data\<close> member of the table entry it
  matched. The device tree and the matching are outside the file; the function takes the
  list of these steps in discovery order.
\<close>

record ramc_match =
  of_iomap :: ptr
  of_id_data :: ptr

text \<open>The store \<^verbatim>\<open>at91_ramc_base[idx] = v\<close> into the array of two entries.\<close>

definition ramc_base_store :: "nat \<Rightarrow> ptr \<Rightarrow> pm_state \<Rightarrow> fatal + pm_state" where
  "ramc_base_store idx v s =
     (if idx = 0 then Inr (s\<lparr>at91_ramc_base := (v, snd (at91_ramc_base s))\<rparr>)
      else if idx = 1 then Inr (s\<lparr>at91_ramc_base := (fst (at91_ramc_base s), v)\<rparr>)
      else Inl (Ramc_base_out_of_bounds idx))"

fun dt_ramc_loop ::
  "ramc_match list \<Rightarrow> nat \<Rightarrow> ptr \<Rightarrow> pm_state \<Rightarrow> fatal + (nat \<times> ptr \<times> pm_state)" where
  "dt_ramc_loop [] idx standby s = Inr (idx, standby, s)"
| "dt_ramc_loop (m # ms) idx standby s =
     (case ramc_base_store idx (of_iomap m) s of
        Inl e \<Rightarrow> Inl e
      | Inr s1 \<Rightarrow>
          if of_iomap m = NULL then Inl (Panic_unable_to_map_ramc idx)
          else dt_ramc_loop ms (idx + 1) (if standby = NULL then of_id_data m else standby) s1)"

definition at91_dt_ramc :: "ramc_match list \<Rightarrow> pm_state \<Rightarrow> fatal + pm_state" where
  "at91_dt_ramc ms s =
     (case dt_ramc_loop ms 0 NULL s of
        Inl e \<Rightarrow> Inl e
      | Inr (idx, standby, s1) \<Rightarrow>
          if idx = 0 then Inl Panic_no_ramc_node
          else if standby = NULL then Inr (emit (Pr_warn Ramc_no_standby) s1)
          else Inr (at91_pm_set_standby standby s1))"

subsection \<open>Relocation into SRAM and registration\<close>

text \<open>
  The collaborators of \<^verbatim>\<open>at91_pm_sram_init\<close>: \<open>sram_nodes\<close> holds, for each node compatible
  with \<^verbatim>\<open>mmio-sram\<close> in iteration order, what \<^verbatim>\<open>of_find_device_by_node\<close> returns for it; the
  other fields are the kernel functions of the same names, and
  \<open>at91_pm_suspend_in_sram_sz\<close> is the size of the routine's image.
\<close>

record sram_env =
  sram_nodes :: "ptr list"
  dev_get_gen_pool :: "ptr \<Rightarrow> ptr"
  gen_pool_alloc :: "ptr \<Rightarrow> u32 \<Rightarrow> u32"
  gen_pool_virt_to_phys :: "ptr \<Rightarrow> u32 \<Rightarrow> u32"
  arm_ioremap_exec :: "u32 \<Rightarrow> u32 \<Rightarrow> ptr"
  fncpy :: "ptr \<Rightarrow> u32 \<Rightarrow> ptr"
  at91_pm_suspend_in_sram_sz :: u32

text \<open>The \<^verbatim>\<open>for_each_compatible_node\<close> loop: the first device found, or \<open>NULL\<close>.\<close>

fun find_sram_pdev :: "ptr list \<Rightarrow> ptr" where
  "find_sram_pdev [] = NULL"
| "find_sram_pdev (pdev # rest) = (if pdev \<noteq> NULL then pdev else find_sram_pdev rest)"

definition at91_pm_sram_init :: "sram_env \<Rightarrow> pm_state \<Rightarrow> pm_state" where
  "at91_pm_sram_init env s =
     (let pdev = find_sram_pdev (sram_nodes env)
      in if pdev = NULL then emit (Pr_warn Sram_no_device) s
         else
           (let sram_pool = dev_get_gen_pool env pdev
            in if sram_pool = NULL then emit (Pr_warn Sram_pool_unavailable) s
               else
                 (let sram_base = gen_pool_alloc env sram_pool (at91_pm_suspend_in_sram_sz env)
                  in if sram_base = 0 then emit (Pr_warn Sram_alloc_failed) s
                     else
                       (let sram_pbase = gen_pool_virt_to_phys env sram_pool sram_base;
                            s1 = s\<lparr>at91_suspend_sram_fn :=
                                     arm_ioremap_exec env sram_pbase (at91_pm_suspend_in_sram_sz env)\<rparr>
                        in if at91_suspend_sram_fn s1 = NULL
                           then emit (Pr_warn Sram_could_not_map) s1
                           else s1\<lparr>at91_suspend_sram_fn :=
                                     fncpy env (at91_suspend_sram_fn s1)
                                       (at91_pm_suspend_in_sram_sz env)\<rparr>))))"

definition at91_pm_init :: "sram_env \<Rightarrow> pm_state \<Rightarrow> pm_state" where
  "at91_pm_init env s =
     (let s1 = at91_pm_sram_init env s;
          s2 = (if cpuidle_platform_data s1 \<noteq> NULL then emit Platform_device_register s1 else s1)
      in if at91_suspend_sram_fn s2 \<noteq> NULL then emit Suspend_set_ops s2
         else emit Pr_info_pm_not_supported s2)"

subsection \<open>Per-variant initialisers\<close>

definition set_pm_data :: "(at91_pm_data_t \<Rightarrow> at91_pm_data_t) \<Rightarrow> pm_state \<Rightarrow> pm_state" where
  "set_pm_data f s = s\<lparr>at91_pm_data := f (at91_pm_data s)\<rparr>"

definition at91rm9200_pm_init ::
  "variant_hdr \<Rightarrow> sram_env \<Rightarrow> ramc_match list \<Rightarrow> pm_state \<Rightarrow> fatal + pm_state" where
  "at91rm9200_pm_init v env ms s =
     (case at91_dt_ramc ms s of
        Inl e \<Rightarrow> Inl e
      | Inr s1 \<Rightarrow>
          Inr (at91_pm_init env
                 (set_pm_data (\<lambda>d. d\<lparr>uhp_udp_mask := AT91RM9200_PMC_UHP v OR AT91RM9200_PMC_UDP v,
                                     memctrl := AT91_MEMCTRL_MC v\<rparr>)
                    (emit (Ramc_write 0 (AT91RM9200_SDRAMC_LPR v) 0) s1))))"

definition at91sam9260_pm_init ::
  "variant_hdr \<Rightarrow> sram_env \<Rightarrow> ramc_match list \<Rightarrow> pm_state \<Rightarrow> fatal + pm_state" where
  "at91sam9260_pm_init v env ms s =
     (case at91_dt_ramc ms s of
        Inl e \<Rightarrow> Inl e
      | Inr s1 \<Rightarrow>
          Inr (at91_pm_init env
                 (set_pm_data (\<lambda>d. d\<lparr>memctrl := AT91_MEMCTRL_SDRAMC v,
                                     uhp_udp_mask := AT91SAM926x_PMC_UHP v OR AT91SAM926x_PMC_UDP v\<rparr>)
                    s1)))"

definition at91sam9g45_pm_init ::
  "variant_hdr \<Rightarrow> sram_env \<Rightarrow> ramc_match list \<Rightarrow> pm_state \<Rightarrow> fatal + pm_state" where
  "at91sam9g45_pm_init v env ms s =
     (case at91_dt_ramc ms s of
        Inl e \<Rightarrow> Inl e
      | Inr s1 \<Rightarrow>
          Inr (at91_pm_init env
                 (set_pm_data (\<lambda>d. d\<lparr>uhp_udp_mask := AT91SAM926x_PMC_UHP v,
                                     memctrl := AT91_MEMCTRL_DDRSDR v\<rparr>)
                    s1)))"

definition at91sam9x5_pm_init ::
  "variant_hdr \<Rightarrow> sram_env \<Rightarrow> ramc_match list \<Rightarrow> pm_state \<Rightarrow> fatal + pm_state" where
  "at91sam9x5_pm_init v env ms s =
     (case at91_dt_ramc ms s of
        Inl e \<Rightarrow> Inl e
      | Inr s1 \<Rightarrow>
          Inr (at91_pm_init env
                 (set_pm_data (\<lambda>d. d\<lparr>uhp_udp_mask := AT91SAM926x_PMC_UHP v OR AT91SAM926x_PMC_UDP v,
                                     memctrl := AT91_MEMCTRL_DDRSDR v\<rparr>)
                    s1)))"

definition sam5d3_pm_init ::
  "variant_hdr \<Rightarrow> sram_env \<Rightarrow> ramc_match list \<Rightarrow> pm_state \<Rightarrow> fatal + pm_state" where
  "sam5d3_pm_init v env ms s =
     (case at91_dt_ramc ms s of
        Inl e \<Rightarrow> Inl e
      | Inr s1 \<Rightarrow>
          Inr (at91_pm_init env
                 (set_pm_data (\<lambda>d. d\<lparr>uhp_udp_mask := AT91SAM926x_PMC_UHP v OR AT91SAM926x_PMC_UDP v,
                                     memctrl := AT91_MEMCTRL_DDRSDR v,
                                     ddrc_pid := SAMA5D3_ID_MPDDRC v\<rparr>)
                    s1)))"

definition sam5d4_pm_init ::
  "variant_hdr \<Rightarrow> sram_env \<Rightarrow> ramc_match list \<Rightarrow> pm_state \<Rightarrow> fatal + pm_state" where
  "sam5d4_pm_init v env ms s =
     (case at91_dt_ramc ms s of
        Inl e \<Rightarrow> Inl e
      | Inr s1 \<Rightarrow>
          Inr (at91_pm_init env
                 (set_pm_data (\<lambda>d. d\<lparr>uhp_udp_mask := AT91SAM926x_PMC_UHP v OR AT91SAM926x_PMC_UDP v,
                                     memctrl := AT91_MEMCTRL_DDRSDR v,
                                     ddrc_pid := SAMA5D4_ID_MPDDRC v,
                                     is_sama5d4 := True\<rparr>)
                    s1)))"

subsection \<open>Vocabulary of the properties\<close>

text \<open>Several calls appended to the trace at once.\<close>

definition emits :: "event list \<Rightarrow> pm_state \<Rightarrow> pm_state" where
  "emits evs s = s\<lparr>trace := trace s @ evs\<rparr>"

text \<open>
  The four preconditions of deep suspend, read off the registers: the USB clocks of the
  profile's mask are off, programmable clock \<open>i\<close> is disabled or runs from the slow clock,
  the USB PLL is disabled, PLL B is not locked.
\<close>

definition usb_clocks_off :: "hdr \<Rightarrow> (u32 \<Rightarrow> u32) \<Rightarrow> u32 \<Rightarrow> bool" where
  "usb_clocks_off c pmc usb_mask = (pmc (AT91_PMC_SCSR c) AND usb_mask = 0)"

definition pck_enabled :: "hdr \<Rightarrow> (u32 \<Rightarrow> u32) \<Rightarrow> nat \<Rightarrow> bool" where
  "pck_enabled c pmc i = (pmc (AT91_PMC_SCSR c) AND push_bit i (AT91_PMC_PCK0 c) \<noteq> 0)"

definition pck_css :: "hdr \<Rightarrow> (u32 \<Rightarrow> u32) \<Rightarrow> nat \<Rightarrow> u32" where
  "pck_css c pmc i = pmc (AT91_PMC_PCKR c i) AND AT91_PMC_CSS c"

definition pck_ok :: "hdr \<Rightarrow> (u32 \<Rightarrow> u32) \<Rightarrow> nat \<Rightarrow> bool" where
  "pck_ok c pmc i =
     (pmc (AT91_PMC_SCSR c) AND push_bit i (AT91_PMC_PCK0 c) = 0 \<or>
      pck_css c pmc i = AT91_PMC_CSS_SLOW c)"

definition usb_pll_off :: "hdr \<Rightarrow> (u32 \<Rightarrow> u32) \<Rightarrow> bool" where
  "usb_pll_off c pmc = (pmc (AT91_CKGR_UCKR c) AND AT91_PMC_UPLLEN c = 0)"

definition pll_b_unlocked :: "hdr \<Rightarrow> (u32 \<Rightarrow> u32) \<Rightarrow> bool" where
  "pll_b_unlocked c pmc = (pmc (AT91_PMC_SR c) AND AT91_PMC_LOCKB c = 0)"

text \<open>
  The calls of a validator that examines the preconditions in the order 1 to 4 and stops
  at the first one violated: the registers it reads and the one error it logs.
\<close>

definition pck_reads :: "hdr \<Rightarrow> (u32 \<Rightarrow> u32) \<Rightarrow> nat list \<Rightarrow> event list" where
  "pck_reads c pmc ks = map (\<lambda>i. Pmc_read (AT91_PMC_PCKR c i)) (filter (pck_enabled c pmc) ks)"

definition checks_in_order :: "hdr \<Rightarrow> (u32 \<Rightarrow> u32) \<Rightarrow> u32 \<Rightarrow> event list" where
  "checks_in_order c pmc usb_mask =
     Pmc_read (AT91_PMC_SCSR c) #
     (if \<not> usb_clocks_off c pmc usb_mask then [Pr_err Usb_still_active]
      else
        (case find (\<lambda>i. \<not> pck_ok c pmc i) [0..<4] of
           Some i \<Rightarrow> pck_reads c pmc ([0..<Suc i]) @ [Pr_err (Pck_src i (pck_css c pmc i))]
         | None \<Rightarrow>
             pck_reads c pmc [0..<4] @
             Pmc_read (AT91_CKGR_UCKR c) #
             (if \<not> usb_pll_off c pmc then [Pr_err Usb_pll_running]
              else
                Pmc_read (AT91_PMC_SR c) #
                (if \<not> pll_b_unlocked c pmc then [Pr_err Pll_b_running] else []))))"

definition clocks_ready :: "hdr \<Rightarrow> (u32 \<Rightarrow> u32) \<Rightarrow> u32 \<Rightarrow> bool" where
  "clocks_ready c pmc usb_mask =
     (usb_clocks_off c pmc usb_mask \<and>
      pck_ok c pmc 0 \<and> pck_ok c pmc 1 \<and> pck_ok c pmc 2 \<and> pck_ok c pmc 3 \<and>
      usb_pll_off c pmc \<and> pll_b_unlocked c pmc)"

text \<open>Classes of calls: the relocated routine, and what the clock validator does.\<close>

fun is_sram_call :: "event \<Rightarrow> bool" where
  "is_sram_call (Suspend_sram_fn fn pmc_base ramc0 ramc1 w) = True"
| "is_sram_call e = False"

fun is_clock_check :: "event \<Rightarrow> bool" where
  "is_clock_check (Pmc_read r) = True"
| "is_clock_check (Pr_err e) = True"
| "is_clock_check e = False"

text \<open>
  The calls of \<open>at91_pm_suspend\<close> and of the \<^verbatim>\<open>switch\<close> of \<open>at91_pm_enter\<close>, written as
  lists, and the condition under which the \<^verbatim>\<open>switch\<close> reaches the relocated routine.
\<close>

definition suspend_events :: "hdr \<Rightarrow> pm_state \<Rightarrow> suspend_state_t \<Rightarrow> event list" where
  "suspend_events c s state =
     [Flush_cache_all, Outer_disable,
      Suspend_sram_fn (at91_suspend_sram_fn s) (at91_pmc_base c)
        (fst (at91_ramc_base s)) (snd (at91_ramc_base s))
        (pm_data_word c (at91_pm_data s) state),
      Outer_resume]"

definition enter_events :: "hdr \<Rightarrow> (u32 \<Rightarrow> u32) \<Rightarrow> suspend_state_t \<Rightarrow> pm_state \<Rightarrow> event list" where
  "enter_events c pmc state s =
     (if state = PM_SUSPEND_MEM c then
        checks_in_order c pmc (uhp_udp_mask (at91_pm_data s)) @
        (if clocks_ready c pmc (uhp_udp_mask (at91_pm_data s)) then suspend_events c s state else [])
      else if state = PM_SUSPEND_STANDBY c then suspend_events c s state
      else if state = PM_SUSPEND_ON c then [Cpu_do_idle]
      else [Pr_debug_bogus_state state])"

definition calls_sram_fn :: "hdr \<Rightarrow> (u32 \<Rightarrow> u32) \<Rightarrow> suspend_state_t \<Rightarrow> pm_state \<Rightarrow> bool" where
  "calls_sram_fn c pmc state s =
     (if state = PM_SUSPEND_MEM c then clocks_ready c pmc (uhp_udp_mask (at91_pm_data s))
      else state = PM_SUSPEND_STANDBY c)"

text \<open>
  The fields of the mode word: \<^verbatim>\<open>AT91_PM_MODE(AT91_PM_SLOW_CLOCK)\<close> and
  \<^verbatim>\<open>AT91_PM_IS_SAMA5D4(AT91_PM_SAMA5D4_BIT)\<close>. A header and a profile satisfy \<open>mode_bit_free\<close>
  when the mode field is not empty and the other three fields do not overlap it.
\<close>

definition slow_clock_mode :: "hdr \<Rightarrow> u32" where
  "slow_clock_mode c = AT91_PM_MODE c (AT91_PM_SLOW_CLOCK c)"

definition sama5d4_flag :: "hdr \<Rightarrow> u32" where
  "sama5d4_flag c = AT91_PM_IS_SAMA5D4 c (AT91_PM_SAMA5D4_BIT c)"

definition mode_bit_free :: "hdr \<Rightarrow> at91_pm_data_t \<Rightarrow> bool" where
  "mode_bit_free c d =
     (slow_clock_mode c \<noteq> 0 \<and>
      memctrl d AND slow_clock_mode c = 0 \<and>
      AT91_PM_DDRC_PID c (ddrc_pid d) AND slow_clock_mode c = 0 \<and>
      sama5d4_flag c AND slow_clock_mode c = 0)"

text \<open>
  One of the four steps of the relocation fails: no SRAM device, no pool behind it, the
  allocation returns 0, or the executable mapping returns \<open>NULL\<close>.
\<close>

definition relocation_fails :: "sram_env \<Rightarrow> bool" where
  "relocation_fails env =
     (let pdev = find_sram_pdev (sram_nodes env);
          sram_pool = dev_get_gen_pool env pdev;
          sram_base = gen_pool_alloc env sram_pool (at91_pm_suspend_in_sram_sz env)
      in pdev = NULL \<or> sram_pool = NULL \<or> sram_base = 0 \<or>
         arm_ioremap_exec env (gen_pool_virt_to_phys env sram_pool sram_base)
           (at91_pm_suspend_in_sram_sz env) = NULL)"

text \<open>
  A matched node whose registers were mapped, a matched table entry without a standby
  routine, and the value of the local \<^verbatim>\<open>standby\<close> after the loop has seen the nodes \<open>ms\<close>.
\<close>

definition mapped :: "ramc_match \<Rightarrow> bool" where
  "mapped m = (of_iomap m \<noteq> NULL)"

definition no_standby :: "ramc_match \<Rightarrow> bool" where
  "no_standby m = (of_id_data m = NULL)"

definition first_standby :: "ptr \<Rightarrow> ramc_match list \<Rightarrow> ptr" where
  "first_standby standby ms = fold (\<lambda>m sb. if sb = NULL then of_id_data m else sb) ms standby"

subsection \<open>A sample configuration\<close>

text \<open>
  One choice of the header values, a profile with memory-controller kind 2 and device
  id 5, three register files (all clocks quiet, a USB clock on, \<^verbatim>\<open>PCK1\<close> running from a
  PLL), an environment for the relocation and matched nodes. They serve to run the
  definitions on concrete inputs.
\<close>

definition sample_hdr :: hdr where
  "sample_hdr =
     \<lparr>PM_SUSPEND_ON = 0, PM_SUSPEND_STANDBY = 2, PM_SUSPEND_MEM = 3,
      AT91_PMC_SCSR = 0x08, AT91_PMC_PCKR = (\<lambda>n. 0x40 + 4 * of_nat n),
      AT91_CKGR_UCKR = 0x1c, AT91_PMC_SR = 0x68,
      AT91_PMC_PCK0 = 0x100, AT91_PMC_CSS = 3, AT91_PMC_CSS_SLOW = 0,
      AT91_PMC_UPLLEN = 0x10000, AT91_PMC_LOCKB = 4,
      AT91_PM_MODE = (\<lambda>x. push_bit 4 (x AND 1)), AT91_PM_SLOW_CLOCK = 1,
      AT91_PM_DDRC_PID = (\<lambda>x. push_bit 8 (x AND 0xff)),
      AT91_PM_IS_SAMA5D4 = (\<lambda>x. push_bit 16 (x AND 1)), AT91_PM_SAMA5D4_BIT = 1,
      at91_pmc_base = 0xfefffc00\<rparr>"

definition sample_state :: pm_state where
  "sample_state =
     \<lparr>at91_pm_data = \<lparr>uhp_udp_mask = 0xc0, memctrl = 2, ddrc_pid = 5, is_sama5d4 = False\<rparr>,
      at91_ramc_base = (0xfeffea00, NULL),
      target_state = 0,
      at91_suspend_sram_fn = 0x300000,
      cpuidle_platform_data = NULL,
      trace = []\<rparr>"

definition pmc_quiet :: "u32 \<Rightarrow> u32" where
  "pmc_quiet r = 0"

definition pmc_usb_active :: "u32 \<Rightarrow> u32" where
  "pmc_usb_active r = (if r = 0x08 then 0x40 else 0)"

definition pmc_pck1_on_plla :: "u32 \<Rightarrow> u32" where
  "pmc_pck1_on_plla r = (if r = 0x08 then 0x300 else if r = 0x44 then 2 else 0)"

definition sample_env :: "ptr list \<Rightarrow> sram_env" where
  "sample_env nodes =
     \<lparr>sram_nodes = nodes,
      dev_get_gen_pool = (\<lambda>pdev. if pdev = 0xc0a00000 then 0xc0b00000 else NULL),
      gen_pool_alloc = (\<lambda>pool size. if size \<le> 0x1000 then 0xd0800000 else 0),
      gen_pool_virt_to_phys = (\<lambda>pool v. v - 0xd0500000),
      arm_ioremap_exec = (\<lambda>phys size. phys + 0xd0600000),
      fncpy = (\<lambda>dest size. dest),
      at91_pm_suspend_in_sram_sz = 0x200\<rparr>"

definition sample_ramc :: "ptr \<Rightarrow> ptr \<Rightarrow> ramc_match" where
  "sample_ramc base standby = \<lparr>of_iomap = base, of_id_data = standby\<rparr>"

section \<open>Auxiliary facts\<close>

subsection \<open>Traces\<close>

lemma emit_emits: "emit e (emits evs s) = emits (evs @ [e]) s"
  by (simp add: emit_def emits_def)

lemma emit_is_emits: "emit e s = emits [e] s"
  by (simp add: emit_def emits_def)

lemma emits_emits: "emits es (emits evs s) = emits (evs @ es) s"
  by (simp add: emits_def)

lemma pm_data_emits: "at91_pm_data (emits evs s) = at91_pm_data s"
  by (simp add: emits_def)

lemma emits_fields:
  "at91_suspend_sram_fn (emits evs s) = at91_suspend_sram_fn s"
  "at91_ramc_base (emits evs s) = at91_ramc_base s"
  "target_state (emits evs s) = target_state s"
  "cpuidle_platform_data (emits evs s) = cpuidle_platform_data s"
  "trace (emits evs s) = trace s @ evs"
  by (simp_all add: emits_def)

lemma new_events_emits: "new_events s (emits evs s) = evs"
  by (simp add: new_events_def emits_def)

lemma new_events_emits_target:
  "new_events s (emits evs s\<lparr>target_state := t\<rparr>) = evs"
  by (simp add: new_events_def emits_def)

subsection \<open>The clock validator as a list of checks\<close>

lemma find_in_set: "find P xs = Some j \<Longrightarrow> j \<in> set xs"
  by (induction xs) (auto split: if_splits)

lemma pck_reads_Cons:
  "pck_reads c pmc (k # ks) =
     (if pck_enabled c pmc k then Pmc_read (AT91_PMC_PCKR c k) # pck_reads c pmc ks
      else pck_reads c pmc ks)"
  by (simp add: pck_reads_def)

lemma pck_reads_Nil: "pck_reads c pmc [] = []"
  by (simp add: pck_reads_def)

lemma verify_pck_from:
  "verify_pck c pmc (pmc (AT91_PMC_SCSR c)) i (emits evs s) =
     (case find (\<lambda>j. \<not> pck_ok c pmc j) [i..<4] of
        Some j \<Rightarrow> (False, emits (evs @ pck_reads c pmc [i..<Suc j] @ [Pr_err (Pck_src j (pck_css c pmc j))]) s)
      | None \<Rightarrow> (True, emits (evs @ pck_reads c pmc [i..<4]) s))"
proof (induction "4 - i" arbitrary: i evs)
  case 0
  then have "[i..<4] = []" by simp
  with 0 show ?case
    by (simp add: verify_pck.simps [of c pmc _ i] pck_reads_Nil)
next
  case (Suc n)
  then have lt: "i < 4" and n: "n = 4 - Suc i" by simp_all
  have cons: "[i..<4] = i # [Suc i..<4]" using lt by (simp add: upt_conv_Cons)
  have tail: "\<And>j. find (\<lambda>j. \<not> pck_ok c pmc j) [Suc i..<4] = Some j \<Longrightarrow> [i..<Suc j] = i # [Suc i..<Suc j]"
  proof -
    fix j assume "find (\<lambda>j. \<not> pck_ok c pmc j) [Suc i..<4] = Some j"
    then have "j \<in> set [Suc i..<4]" by (rule find_in_set)
    then have "i < Suc j" by simp
    then show "[i..<Suc j] = i # [Suc i..<Suc j]" by (simp add: upt_conv_Cons)
  qed
  note ih = Suc.hyps(1) [OF n]
  show ?case
  proof (cases "pck_enabled c pmc i")
    case False
    then have ok: "pck_ok c pmc i" by (simp add: pck_ok_def pck_enabled_def)
    have step: "verify_pck c pmc (pmc (AT91_PMC_SCSR c)) i (emits evs s) =
                verify_pck c pmc (pmc (AT91_PMC_SCSR c)) (Suc i) (emits evs s)"
      using False lt by (subst verify_pck.simps) (simp add: pck_enabled_def)
    show ?thesis
      unfolding step ih cons using ok False
      by (auto simp: pck_reads_Cons tail simp del: upt_Suc split: option.splits)
  next
    case True
    show ?thesis
    proof (cases "pck_css c pmc i = AT91_PMC_CSS_SLOW c")
      case slow: True
      then have ok: "pck_ok c pmc i" by (simp add: pck_ok_def)
      have step: "verify_pck c pmc (pmc (AT91_PMC_SCSR c)) i (emits evs s) =
                  verify_pck c pmc (pmc (AT91_PMC_SCSR c)) (Suc i)
                    (emits (evs @ [Pmc_read (AT91_PMC_PCKR c i)]) s)"
        using True slow lt
        by (subst verify_pck.simps) (simp add: pck_enabled_def pck_css_def Let_def emit_emits)
      show ?thesis
        unfolding step ih cons using ok True
        by (auto simp: pck_reads_Cons tail simp del: upt_Suc split: option.splits)
    next
      case fast: False
      then have bad: "\<not> pck_ok c pmc i" using True by (simp add: pck_ok_def pck_enabled_def)
      have step: "verify_pck c pmc (pmc (AT91_PMC_SCSR c)) i (emits evs s) =
                  (False, emits (evs @ [Pmc_read (AT91_PMC_PCKR c i), Pr_err (Pck_src i (pck_css c pmc i))]) s)"
        using True fast lt
        by (subst verify_pck.simps) (simp add: pck_enabled_def pck_css_def Let_def emit_emits)
      show ?thesis
        unfolding step cons using bad True
        by (simp add: pck_reads_Cons pck_reads_Nil)
    qed
  qed
qed

lemma upt_0_4: "[0..<4] = [0, 1, 2, 3]"
  by (simp add: upt_rec)

lemma find_pck_None:
  "(find (\<lambda>j. \<not> pck_ok c pmc j) [0..<4] = None) =
     (pck_ok c pmc 0 \<and> pck_ok c pmc 1 \<and> pck_ok c pmc 2 \<and> pck_ok c pmc 3)"
  by (auto simp: upt_0_4)

lemma verify_clocks_eq:
  "at91_pm_verify_clocks c pmc s =
     (if clocks_ready c pmc (uhp_udp_mask (at91_pm_data s)) then 1 else 0,
      emits (checks_in_order c pmc (uhp_udp_mask (at91_pm_data s))) s)"
proof (cases "usb_clocks_off c pmc (uhp_udp_mask (at91_pm_data s))")
  case False
  then show ?thesis
    by (simp add: at91_pm_verify_clocks_def Let_def clocks_ready_def checks_in_order_def
        usb_clocks_off_def emit_is_emits emits_emits pm_data_emits)
next
  case True
  note usb = this
  let ?m = "uhp_udp_mask (at91_pm_data s)"
  show ?thesis
  proof (cases "find (\<lambda>j. \<not> pck_ok c pmc j) [0..<4]")
    case (Some j)
    then have "\<not> clocks_ready c pmc ?m"
      using find_pck_None [of c pmc] by (auto simp: clocks_ready_def)
    with usb Some show ?thesis
      using verify_pck_from [of c pmc 0 "[Pmc_read (AT91_PMC_SCSR c)]" s]
      by (simp add: at91_pm_verify_clocks_def Let_def checks_in_order_def
          usb_clocks_off_def emit_is_emits pm_data_emits del: upt_Suc)
  next
    case None
    then have pck: "clocks_ready c pmc ?m = (usb_pll_off c pmc \<and> pll_b_unlocked c pmc)"
      using find_pck_None [of c pmc] usb by (auto simp: clocks_ready_def)
    from usb None show ?thesis
      using verify_pck_from [of c pmc 0 "[Pmc_read (AT91_PMC_SCSR c)]" s]
      by (simp add: at91_pm_verify_clocks_def Let_def checks_in_order_def pck
          usb_clocks_off_def usb_pll_off_def pll_b_unlocked_def
          emit_is_emits emits_emits pm_data_emits del: upt_Suc)
  qed
qed

lemma verify_clocks_target:
  "target_state (snd (at91_pm_verify_clocks c pmc s)) = target_state s"
  by (simp add: verify_clocks_eq emits_fields)

lemma checks_are_clock_checks:
  "list_all is_clock_check (checks_in_order c pmc m)"
  by (simp add: checks_in_order_def pck_reads_def list_all_iff split: option.splits)

lemma clock_check_not_others:
  assumes "list_all is_clock_check evs"
  shows "filter is_sram_call evs = []"
    and "Flush_cache_all \<notin> set evs"
    and "Outer_disable \<notin> set evs"
    and "Pinctrl_gpio_suspend \<notin> set evs"
    and "Pinctrl_gpio_resume \<notin> set evs"
  using assms by (induction evs) (auto elim: is_clock_check.elims)

subsection \<open>The calls of one transition\<close>

lemma suspend_eq:
  "at91_pm_suspend c state (emits evs s) =
     (if at91_suspend_sram_fn s = NULL then Inl Null_function_call
      else Inr (emits (evs @ suspend_events c s state) s))"
  by (simp add: at91_pm_suspend_def Let_def emit_is_emits emits_emits emits_fields
      pm_data_emits suspend_events_def)

lemma suspend_target:
  "at91_pm_suspend c state s = Inr s' \<Longrightarrow> target_state s' = target_state s"
  using suspend_eq [of c state "[]" s]
  by (auto simp: emits_def split: if_splits)

lemma enter_switch_eq:
  "enter_switch c pmc state (emits evs s) =
     (if calls_sram_fn c pmc state s \<and> at91_suspend_sram_fn s = NULL then Inl Null_function_call
      else Inr (emits (evs @ enter_events c pmc state s) s))"
  by (simp add: enter_switch_def verify_clocks_eq suspend_eq emits_emits emits_fields
      pm_data_emits enter_events_def calls_sram_fn_def emit_is_emits)

lemma enter_eq:
  "at91_pm_enter c pmc state s =
     (if calls_sram_fn c pmc state s \<and> at91_suspend_sram_fn s = NULL then Inl Null_function_call
      else Inr (0, emits (Pinctrl_gpio_suspend # enter_events c pmc state s @ [Pinctrl_gpio_resume]) s
                     \<lparr>target_state := PM_SUSPEND_ON c\<rparr>))"
  unfolding at91_pm_enter_def emit_is_emits enter_switch_eq
  by (simp add: emits_def)

lemma enter_events_no_gpio:
  "Pinctrl_gpio_suspend \<notin> set (enter_events c pmc state s)"
  "Pinctrl_gpio_resume \<notin> set (enter_events c pmc state s)"
  using clock_check_not_others(4,5) [OF checks_are_clock_checks [of c pmc "uhp_udp_mask (at91_pm_data s)"]]
  by (simp_all add: enter_events_def suspend_events_def)

lemma pm_data_word_mode:
  assumes "mode_bit_free c d"
  shows "pm_data_word c d state AND slow_clock_mode c =
           (if state = PM_SUSPEND_MEM c then slow_clock_mode c else 0)"
  using assms
  by (simp add: pm_data_word_def mode_bit_free_def slow_clock_mode_def sama5d4_flag_def
      word_ao_dist)

lemma pm_data_word_fields:
  "pm_data_word c d state AND memctrl d = memctrl d"
  "pm_data_word c d state AND AT91_PM_DDRC_PID c (ddrc_pid d) = AT91_PM_DDRC_PID c (ddrc_pid d)"
  "pm_data_word c d state AND (if is_sama5d4 d then sama5d4_flag c else 0) =
     (if is_sama5d4 d then sama5d4_flag c else 0)"
  by (simp_all add: pm_data_word_def sama5d4_flag_def bit_eq_iff bit_and_iff bit_or_iff) auto

subsection \<open>Relocation and registration\<close>

lemma sram_init_trace:
  "\<exists>evs. trace (at91_pm_sram_init env s) = trace s @ evs \<and> Suspend_set_ops \<notin> set evs \<and>
     Platform_device_register \<notin> set evs"
  by (simp add: at91_pm_sram_init_def Let_def emit_def)

lemma sram_init_platform_data:
  "cpuidle_platform_data (at91_pm_sram_init env s) = cpuidle_platform_data s"
  by (simp add: at91_pm_sram_init_def Let_def emit_def)

lemma sram_init_fails:
  assumes "at91_suspend_sram_fn s = NULL" and "relocation_fails env"
  shows "at91_suspend_sram_fn (at91_pm_sram_init env s) = NULL"
  using assms by (auto simp: at91_pm_sram_init_def relocation_fails_def Let_def emit_def)

lemma pm_init_registration:
  "(Suspend_set_ops \<in> set (new_events s (at91_pm_init env s))) =
     (at91_suspend_sram_fn (at91_pm_sram_init env s) \<noteq> NULL)"
  using sram_init_trace [of env s]
  by (auto simp: at91_pm_init_def Let_def emit_def new_events_def)

lemma pm_init_cpuidle:
  "(Platform_device_register \<in> set (new_events s (at91_pm_init env s))) =
     (cpuidle_platform_data s \<noteq> NULL)"
  using sram_init_trace [of env s] sram_init_platform_data [of env s]
  by (auto simp: at91_pm_init_def Let_def emit_def new_events_def)

subsection \<open>The discovery loop\<close>

lemma ramc_base_store_ok:
  "idx < 2 \<Longrightarrow> \<exists>s'. ramc_base_store idx v s = Inr s' \<and> trace s' = trace s \<and>
     cpuidle_platform_data s' = cpuidle_platform_data s"
  by (auto simp: ramc_base_store_def)

lemma ramc_base_store_oob:
  "2 \<le> idx \<Longrightarrow> ramc_base_store idx v s = Inl (Ramc_base_out_of_bounds idx)"
  by (simp add: ramc_base_store_def)

lemma dt_ramc_loop_prefix:
  assumes "list_all mapped pre" and "idx + length pre \<le> 2"
  shows "\<exists>s'. dt_ramc_loop (pre @ rest) idx sb s =
                dt_ramc_loop rest (idx + length pre) (first_standby sb pre) s' \<and>
              trace s' = trace s \<and> cpuidle_platform_data s' = cpuidle_platform_data s"
  using assms
proof (induction pre arbitrary: idx sb s)
  case Nil
  show ?case by (rule exI [of _ s]) (simp add: first_standby_def)
next
  case (Cons m pre)
  from Cons.prems have rest: "list_all mapped pre" and mp: "mapped m"
    and lt: "idx < 2" and len: "Suc idx + length pre \<le> 2"
    by simp_all
  from mp have mp: "of_iomap m \<noteq> NULL"
    by (simp add: mapped_def)
  from ramc_base_store_ok [OF lt, of "of_iomap m" s]
  obtain s1 where s1: "ramc_base_store idx (of_iomap m) s = Inr s1"
    "trace s1 = trace s" "cpuidle_platform_data s1 = cpuidle_platform_data s"
    by blast
  from Cons.IH [OF rest len, of "if sb = NULL then of_id_data m else sb" s1]
  obtain s' where s': "dt_ramc_loop (pre @ rest) (Suc idx) (if sb = NULL then of_id_data m else sb) s1 =
      dt_ramc_loop rest (Suc idx + length pre) (first_standby (if sb = NULL then of_id_data m else sb) pre) s'"
    "trace s' = trace s1" "cpuidle_platform_data s' = cpuidle_platform_data s1"
    by blast
  show ?case
    using s1 s' mp by (auto simp: first_standby_def)
qed

lemma dt_ramc_loop_overflow:
  assumes "list_all mapped pre" and "idx \<le> 2" and "2 < idx + length pre"
  shows "dt_ramc_loop (pre @ rest) idx sb s = Inl (Ramc_base_out_of_bounds 2)"
  using assms
proof (induction pre arbitrary: idx sb s)
  case Nil
  then show ?case by simp
next
  case (Cons m pre)
  show ?case
  proof (cases "idx = 2")
    case True
    then show ?thesis by (simp add: ramc_base_store_def)
  next
    case False
    from Cons.prems have rest: "list_all mapped pre" and mp: "mapped m"
      by simp_all
    from False Cons.prems have lt: "idx < 2" and len: "Suc idx \<le> 2" "2 < Suc idx + length pre"
      by simp_all
    from mp have mp: "of_iomap m \<noteq> NULL"
      by (simp add: mapped_def)
    from ramc_base_store_ok [OF lt, of "of_iomap m" s]
    obtain s1 where s1: "ramc_base_store idx (of_iomap m) s = Inr s1" by blast
    show ?thesis
      using s1 mp Cons.IH [OF rest len] by simp
  qed
qed

lemma first_standby_none:
  "list_all no_standby ms \<Longrightarrow> first_standby NULL ms = NULL"
  by (induction ms) (simp_all add: first_standby_def no_standby_def)

lemma dt_ramc_in_bounds:
  assumes "length ms \<le> 2"
  shows "at91_dt_ramc ms s \<noteq> Inl (Ramc_base_out_of_bounds n)"
proof (cases ms)
  case Nil
  then show ?thesis by (simp add: at91_dt_ramc_def)
next
  case (Cons a as)
  note outer = this
  show ?thesis
  proof (cases as)
    case Nil
    with outer show ?thesis
      by (simp add: at91_dt_ramc_def ramc_base_store_def)
  next
    case (Cons b bs)
    with outer assms have "ms = [a, b]" by simp
    then show ?thesis
      by (simp add: at91_dt_ramc_def ramc_base_store_def)
  qed
qed

subsection \<open>The sample configuration\<close>

lemma sample_simps:
  "uhp_udp_mask (at91_pm_data sample_state) = 0xc0"
  "trace sample_state = []"
  by (simp_all add: sample_state_def)

lemma sample_fields:
  "at91_pm_data sample_state = \<lparr>uhp_udp_mask = 0xc0, memctrl = 2, ddrc_pid = 5, is_sama5d4 = False\<rparr>"
  "at91_ramc_base sample_state = (0xfeffea00, NULL)"
  "at91_suspend_sram_fn sample_state = 0x300000"
  "target_state sample_state = 0"
  by (simp_all add: sample_state_def)

lemma sample_usb_checks:
  "clocks_ready sample_hdr pmc_usb_active 0xc0 = False"
  "checks_in_order sample_hdr pmc_usb_active 0xc0 = [Pmc_read 0x08, Pr_err Usb_still_active]"
  by (simp_all add: clocks_ready_def checks_in_order_def usb_clocks_off_def sample_hdr_def
      pmc_usb_active_def)

lemma sample_quiet_checks:
  "clocks_ready sample_hdr pmc_quiet 0xc0 = True"
  "checks_in_order sample_hdr pmc_quiet 0xc0 = [Pmc_read 0x08, Pmc_read 0x1c, Pmc_read 0x68]"
  by (simp_all add: clocks_ready_def checks_in_order_def usb_clocks_off_def sample_hdr_def
      pmc_quiet_def pck_ok_def pck_css_def usb_pll_off_def pll_b_unlocked_def pck_reads_def
      pck_enabled_def upt_0_4)

lemma sample_env_no_node:
  "at91_pm_sram_init (sample_env []) boot_state = emit (Pr_warn Sram_no_device) boot_state"
  "at91_pm_sram_init (sample_env [NULL, 0xc0a00400]) boot_state =
     emit (Pr_warn Sram_pool_unavailable) boot_state"
  by (simp_all add: at91_pm_sram_init_def sample_env_def Let_def NULL_def)

section \<open>Properties\<close>

subsection \<open>The suspend state machine\<close>

text \<open>
  C8. \<open>validate(state)\<close> returns true for every state in \<open>{Active, Standby, SuspendToRAM}\<close>
  and false for every other state value.
\<close>

theorem valid_state_iff:
  "(at91_pm_valid_state c state = 1) =
     (state \<in> {PM_SUSPEND_ON c, PM_SUSPEND_STANDBY c, PM_SUSPEND_MEM c}) \<and>
   (at91_pm_valid_state c state = 0) =
     (state \<notin> {PM_SUSPEND_ON c, PM_SUSPEND_STANDBY c, PM_SUSPEND_MEM c})"
  by (simp add: at91_pm_valid_state_def)

text \<open>
  C9. For every state \<open>s\<close>, after \<open>begin(s)\<close> the exported query
  \<open>at91_suspend_entering_slow_clock\<close> returns true exactly when \<open>s\<close> is SuspendToRAM; the
  clock validator and \<open>at91_pm_suspend\<close>, the only other functions that run on the state
  during a transition, leave its answer unchanged; after \<open>enter\<close> or \<open>end\<close> has reset
  \<open>target_state\<close> to Active the query returns false. The two states are distinct case
  labels of one \<^verbatim>\<open>switch\<close>, which is the hypothesis.
\<close>

theorem entering_slow_clock_follows_target:
  assumes "PM_SUSPEND_ON c \<noteq> PM_SUSPEND_MEM c"
  shows "fst (at91_pm_begin state s) = 0 \<and>
         at91_suspend_entering_slow_clock c (snd (at91_pm_begin state s)) =
           (if state = PM_SUSPEND_MEM c then 1 else 0) \<and>
         at91_suspend_entering_slow_clock c (snd (at91_pm_verify_clocks c pmc t)) =
           at91_suspend_entering_slow_clock c t \<and>
         (\<forall>t'. at91_pm_suspend c st t = Inr t' \<longrightarrow>
            at91_suspend_entering_slow_clock c t' = at91_suspend_entering_slow_clock c t) \<and>
         (\<forall>r t'. at91_pm_enter c pmc st t = Inr (r, t') \<longrightarrow>
            at91_suspend_entering_slow_clock c t' = 0) \<and>
         at91_suspend_entering_slow_clock c (at91_pm_end c t) = 0"
proof -
  have enter: "at91_suspend_entering_slow_clock c t' = 0"
    if "at91_pm_enter c pmc st t = Inr (r, t')" for r t'
    using that assms
    by (auto simp: enter_eq at91_suspend_entering_slow_clock_def split: if_splits)
  show ?thesis
    using assms enter
    by (auto simp: at91_pm_begin_def at91_pm_end_def at91_suspend_entering_slow_clock_def
        verify_clocks_target dest: suspend_target)
qed

theorem entering_slow_clock_follows_target_witness:
  "PM_SUSPEND_ON sample_hdr \<noteq> PM_SUSPEND_MEM sample_hdr \<and>
   at91_suspend_entering_slow_clock sample_hdr (snd (at91_pm_begin 3 sample_state)) = 1 \<and>
   at91_suspend_entering_slow_clock sample_hdr (snd (at91_pm_begin 2 sample_state)) = 0 \<and>
   at91_suspend_entering_slow_clock sample_hdr
     (at91_pm_end sample_hdr (snd (at91_pm_begin 3 sample_state))) = 0 \<and>
   (\<exists>t'. at91_pm_enter sample_hdr pmc_usb_active 3 (snd (at91_pm_begin 3 sample_state)) = Inr (0, t') \<and>
         at91_suspend_entering_slow_clock sample_hdr t' = 0)"
proof -
  have h: "PM_SUSPEND_ON sample_hdr \<noteq> PM_SUSPEND_MEM sample_hdr"
    by (simp add: sample_hdr_def)
  have mem: "PM_SUSPEND_MEM sample_hdr = 3"
    by (simp add: sample_hdr_def)
  have fn: "at91_suspend_sram_fn (snd (at91_pm_begin 3 sample_state)) \<noteq> NULL"
    by (simp add: at91_pm_begin_def sample_fields NULL_def)
  have ex: "\<exists>t'. at91_pm_enter sample_hdr pmc_usb_active 3 (snd (at91_pm_begin 3 sample_state)) = Inr (0, t')"
    using fn by (simp add: enter_eq)
  from h ex
    entering_slow_clock_follows_target [OF h, of 3 sample_state]
    entering_slow_clock_follows_target [OF h, of 2 sample_state]
    entering_slow_clock_follows_target [OF h, of _ _ pmc_usb_active "snd (at91_pm_begin 3 sample_state)" 3]
  show ?thesis
    unfolding mem by auto
qed

text \<open>
  C1. For every call to \<open>enter\<close> with state SuspendToRAM, if the clock validator returns
  failure, the relocated SRAM routine is never invoked, no CPU cache flush and no
  outer-cache disable occur, and control proceeds directly to the cleanup: after the calls
  of the validator the only call left is the GPIO resume, and the call returns 0.
\<close>

theorem enter_mem_invalid_clocks_aborts:
  assumes "fst (at91_pm_verify_clocks c pmc (emit Pinctrl_gpio_suspend s)) = 0"
  shows "\<exists>s'. at91_pm_enter c pmc (PM_SUSPEND_MEM c) s = Inr (0, s') \<and>
           new_events s s' =
             Pinctrl_gpio_suspend # checks_in_order c pmc (uhp_udp_mask (at91_pm_data s)) @
             [Pinctrl_gpio_resume] \<and>
           filter is_sram_call (new_events s s') = [] \<and>
           Flush_cache_all \<notin> set (new_events s s') \<and>
           Outer_disable \<notin> set (new_events s s') \<and>
           target_state s' = PM_SUSPEND_ON c"
proof -
  let ?m = "uhp_udp_mask (at91_pm_data s)"
  from assms have bad: "\<not> clocks_ready c pmc ?m"
    by (simp add: verify_clocks_eq emit_is_emits pm_data_emits split: if_splits)
  then have ev: "enter_events c pmc (PM_SUSPEND_MEM c) s = checks_in_order c pmc ?m"
    and nc: "\<not> calls_sram_fn c pmc (PM_SUSPEND_MEM c) s"
    by (simp_all add: enter_events_def calls_sram_fn_def)
  note cc = clock_check_not_others [OF checks_are_clock_checks [of c pmc ?m]]
  show ?thesis
    by (simp add: enter_eq nc ev new_events_emits_target cc)
qed

theorem enter_mem_invalid_clocks_aborts_witness:
  "fst (at91_pm_verify_clocks sample_hdr pmc_usb_active (emit Pinctrl_gpio_suspend sample_state)) = 0 \<and>
   (\<exists>s'. at91_pm_enter sample_hdr pmc_usb_active (PM_SUSPEND_MEM sample_hdr) sample_state = Inr (0, s') \<and>
      new_events sample_state s' =
        [Pinctrl_gpio_suspend, Pmc_read 0x08, Pr_err Usb_still_active, Pinctrl_gpio_resume] \<and>
      filter is_sram_call (new_events sample_state s') = [] \<and>
      target_state s' = 0)"
proof -
  have h: "fst (at91_pm_verify_clocks sample_hdr pmc_usb_active
             (emit Pinctrl_gpio_suspend sample_state)) = 0"
    by (simp add: verify_clocks_eq emit_is_emits pm_data_emits sample_simps sample_usb_checks)
  have on: "PM_SUSPEND_ON sample_hdr = 0"
    by (simp add: sample_hdr_def)
  from enter_mem_invalid_clocks_aborts [OF h] h show ?thesis
    by (auto simp add: sample_simps sample_usb_checks on)
qed

text \<open>
  C4. For every state value passed to \<open>enter\<close>, valid or not, and whether or not the clock
  validator aborts the deep path, the call returns success, and before returning it has
  reset \<open>target_state\<close> to Active and invoked the GPIO resume exactly once, matching the
  single GPIO suspend at entry. The callback is installed only when the relocated routine
  exists, which is the hypothesis.
\<close>

theorem enter_always_cleans_up:
  assumes "at91_suspend_sram_fn s \<noteq> NULL"
  shows "\<exists>s'. at91_pm_enter c pmc state s = Inr (0, s') \<and>
           target_state s' = PM_SUSPEND_ON c \<and>
           count_list (new_events s s') Pinctrl_gpio_suspend = 1 \<and>
           count_list (new_events s s') Pinctrl_gpio_resume = 1 \<and>
           hd (new_events s s') = Pinctrl_gpio_suspend \<and>
           last (new_events s s') = Pinctrl_gpio_resume"
  using assms enter_events_no_gpio [of c pmc state s]
  by (simp add: enter_eq new_events_emits_target count_list_0_iff)

theorem enter_always_cleans_up_witness:
  "at91_suspend_sram_fn sample_state \<noteq> NULL \<and>
   (\<exists>s'. at91_pm_enter sample_hdr pmc_quiet 3 sample_state = Inr (0, s') \<and>
      target_state s' = 0 \<and>
      count_list (new_events sample_state s') Pinctrl_gpio_suspend = 1 \<and>
      count_list (new_events sample_state s') Pinctrl_gpio_resume = 1) \<and>
   (\<exists>s'. at91_pm_enter sample_hdr pmc_usb_active 3 sample_state = Inr (0, s') \<and>
      target_state s' = 0 \<and>
      count_list (new_events sample_state s') Pinctrl_gpio_suspend = 1 \<and>
      count_list (new_events sample_state s') Pinctrl_gpio_resume = 1) \<and>
   (\<exists>s'. at91_pm_enter sample_hdr pmc_quiet 7 sample_state = Inr (0, s') \<and>
      target_state s' = 0 \<and>
      count_list (new_events sample_state s') Pinctrl_gpio_suspend = 1 \<and>
      count_list (new_events sample_state s') Pinctrl_gpio_resume = 1)"
proof -
  have h: "at91_suspend_sram_fn sample_state \<noteq> NULL"
    by (simp add: sample_fields NULL_def)
  have on: "PM_SUSPEND_ON sample_hdr = 0"
    by (simp add: sample_hdr_def)
  from h enter_always_cleans_up [OF h, of sample_hdr pmc_quiet 3]
    enter_always_cleans_up [OF h, of sample_hdr pmc_usb_active 3]
    enter_always_cleans_up [OF h, of sample_hdr pmc_quiet 7]
  show ?thesis
    unfolding on by blast
qed

text \<open>
  C3. For every suspend state passed to \<open>at91_pm_suspend\<close>, the mode word handed to the
  relocated routine has its deep-clock-gating bits set if and only if the state is
  SuspendToRAM, and in every case it packs the profile's memory-controller kind, the
  device id field and the variant flag. The macros that place the fields come from
  \<^verbatim>\<open>pm.h\<close>; the hypothesis \<open>mode_bit_free\<close> says that the other three fields leave the
  mode bits alone.
\<close>

theorem suspend_mode_word:
  assumes "at91_suspend_sram_fn s \<noteq> NULL" and "mode_bit_free c (at91_pm_data s)"
  shows "\<exists>w. at91_pm_suspend c state s =
             Inr (emits [Flush_cache_all, Outer_disable,
                         Suspend_sram_fn (at91_suspend_sram_fn s) (at91_pmc_base c)
                           (fst (at91_ramc_base s)) (snd (at91_ramc_base s)) w,
                         Outer_resume] s) \<and>
           (w AND slow_clock_mode c = slow_clock_mode c) = (state = PM_SUSPEND_MEM c) \<and>
           (w AND slow_clock_mode c = 0) = (state \<noteq> PM_SUSPEND_MEM c) \<and>
           w = memctrl (at91_pm_data s)
                 OR (if state = PM_SUSPEND_MEM c then slow_clock_mode c else 0)
                 OR AT91_PM_DDRC_PID c (ddrc_pid (at91_pm_data s))
                 OR (if is_sama5d4 (at91_pm_data s) then sama5d4_flag c else 0) \<and>
           w AND memctrl (at91_pm_data s) = memctrl (at91_pm_data s) \<and>
           w AND AT91_PM_DDRC_PID c (ddrc_pid (at91_pm_data s)) =
             AT91_PM_DDRC_PID c (ddrc_pid (at91_pm_data s)) \<and>
           w AND (if is_sama5d4 (at91_pm_data s) then sama5d4_flag c else 0) =
             (if is_sama5d4 (at91_pm_data s) then sama5d4_flag c else 0)"
proof -
  let ?w = "pm_data_word c (at91_pm_data s) state"
  have call: "at91_pm_suspend c state s =
      Inr (emits [Flush_cache_all, Outer_disable,
                  Suspend_sram_fn (at91_suspend_sram_fn s) (at91_pmc_base c)
                    (fst (at91_ramc_base s)) (snd (at91_ramc_base s)) ?w,
                  Outer_resume] s)"
    using assms(1) suspend_eq [of c state "[]" s]
    by (simp add: suspend_events_def emits_def)
  have nz: "slow_clock_mode c \<noteq> 0"
    using assms(2) by (simp add: mode_bit_free_def)
  have mode: "(?w AND slow_clock_mode c = slow_clock_mode c) = (state = PM_SUSPEND_MEM c)"
    "(?w AND slow_clock_mode c = 0) = (state \<noteq> PM_SUSPEND_MEM c)"
    using nz by (auto simp: pm_data_word_mode [OF assms(2)])
  have word: "?w = memctrl (at91_pm_data s)
                 OR (if state = PM_SUSPEND_MEM c then slow_clock_mode c else 0)
                 OR AT91_PM_DDRC_PID c (ddrc_pid (at91_pm_data s))
                 OR (if is_sama5d4 (at91_pm_data s) then sama5d4_flag c else 0)"
    by (simp add: pm_data_word_def slow_clock_mode_def sama5d4_flag_def)
  show ?thesis
    using call mode word pm_data_word_fields [of c "at91_pm_data s" state] by blast
qed

theorem suspend_mode_word_witness:
  "at91_suspend_sram_fn sample_state \<noteq> NULL \<and>
   mode_bit_free sample_hdr (at91_pm_data sample_state) \<and>
   slow_clock_mode sample_hdr = 0x10 \<and>
   (\<exists>w. at91_pm_suspend sample_hdr 3 sample_state =
           Inr (emits [Flush_cache_all, Outer_disable,
                       Suspend_sram_fn 0x300000 0xfefffc00 0xfeffea00 0 w, Outer_resume]
                  sample_state) \<and>
         w = 0x512) \<and>
   (\<exists>w. at91_pm_suspend sample_hdr 2 sample_state =
           Inr (emits [Flush_cache_all, Outer_disable,
                       Suspend_sram_fn 0x300000 0xfefffc00 0xfeffea00 0 w, Outer_resume]
                  sample_state) \<and>
         w = 0x502)"
proof -
  have fn: "at91_suspend_sram_fn sample_state \<noteq> NULL"
    by (simp add: sample_fields NULL_def)
  have slow: "slow_clock_mode sample_hdr = 0x10"
    by (simp add: slow_clock_mode_def sample_hdr_def)
  have vals: "PM_SUSPEND_MEM sample_hdr = 3" "at91_pmc_base sample_hdr = 0xfefffc00"
    "AT91_PM_DDRC_PID sample_hdr 5 = 0x500" "sama5d4_flag sample_hdr = 0x10000"
    by (simp_all add: sample_hdr_def sama5d4_flag_def)
  have free: "mode_bit_free sample_hdr (at91_pm_data sample_state)"
    by (simp add: mode_bit_free_def slow sample_fields vals)
  from suspend_mode_word [OF fn free, of 3] suspend_mode_word [OF fn free, of 2] fn free slow
  show ?thesis
    by (simp add: sample_fields vals NULL_def)
qed

subsection \<open>The clock validator\<close>

text \<open>
  C2. \<open>at91_pm_verify_clocks\<close> returns true if and only if all four preconditions hold on
  the clock-controller registers: the USB clock-enable bits of the profile's mask are
  clear in the status register, each of the four programmable clocks is disabled or
  sourced from the slow clock, the USB PLL enable bit is clear, and the lock bit of PLL B
  is clear. The checks run in that order and stop at the first violated precondition:
  the calls the function makes are those of \<open>checks_in_order\<close>, and nothing but the trace
  changes.
\<close>

theorem verify_clocks_checks_in_order:
  "(fst (at91_pm_verify_clocks c pmc s) = 1) = clocks_ready c pmc (uhp_udp_mask (at91_pm_data s)) \<and>
   (fst (at91_pm_verify_clocks c pmc s) = 0) = (\<not> clocks_ready c pmc (uhp_udp_mask (at91_pm_data s))) \<and>
   snd (at91_pm_verify_clocks c pmc s) =
     emits (checks_in_order c pmc (uhp_udp_mask (at91_pm_data s))) s"
  by (simp add: verify_clocks_eq)

theorem verify_clocks_checks_in_order_witness:
  "fst (at91_pm_verify_clocks sample_hdr pmc_quiet sample_state) = 1 \<and>
   trace (snd (at91_pm_verify_clocks sample_hdr pmc_quiet sample_state)) =
     [Pmc_read 0x08, Pmc_read 0x1c, Pmc_read 0x68] \<and>
   fst (at91_pm_verify_clocks sample_hdr pmc_usb_active sample_state) = 0 \<and>
   trace (snd (at91_pm_verify_clocks sample_hdr pmc_usb_active sample_state)) =
     [Pmc_read 0x08, Pr_err Usb_still_active] \<and>
   fst (at91_pm_verify_clocks sample_hdr pmc_pck1_on_plla sample_state) = 0 \<and>
   trace (snd (at91_pm_verify_clocks sample_hdr pmc_pck1_on_plla sample_state)) =
     [Pmc_read 0x08, Pmc_read 0x40, Pmc_read 0x44, Pr_err (Pck_src 1 2)]"
  using verify_clocks_checks_in_order [of sample_hdr pmc_quiet sample_state]
    verify_clocks_checks_in_order [of sample_hdr pmc_usb_active sample_state]
    verify_clocks_checks_in_order [of sample_hdr pmc_pck1_on_plla sample_state]
  by (simp add: sample_simps clocks_ready_def checks_in_order_def usb_clocks_off_def pck_ok_def
      pck_css_def usb_pll_off_def pll_b_unlocked_def pck_reads_def pck_enabled_def emits_def
      sample_hdr_def pmc_quiet_def pmc_usb_active_def pmc_pck1_on_plla_def upt_0_4)

subsection \<open>Relocation into SRAM and registration\<close>

text \<open>
  C5. If any step of the SRAM relocation fails (no SRAM device found, no backing pool, pool
  allocation fails, or the executable mapping fails), the handle \<open>at91_suspend_sram_fn\<close>
  remains null and initialisation goes on: \<open>at91_pm_init\<close> still registers the idle device
  when a standby routine was resolved and ends with the informational message. Whenever
  the handle is null after relocation, \<^verbatim>\<open>suspend_set_ops\<close> is not called.
\<close>

theorem sram_failure_disables_suspend:
  "(at91_suspend_sram_fn s = NULL \<and> relocation_fails env \<longrightarrow>
      at91_suspend_sram_fn (at91_pm_sram_init env s) = NULL) \<and>
   (at91_suspend_sram_fn (at91_pm_sram_init env s) = NULL \<longrightarrow>
      Suspend_set_ops \<notin> set (new_events s (at91_pm_init env s)) \<and>
      last (trace (at91_pm_init env s)) = Pr_info_pm_not_supported \<and>
      (Platform_device_register \<in> set (new_events s (at91_pm_init env s))) =
        (cpuidle_platform_data s \<noteq> NULL))"
proof (intro conjI impI)
  assume "at91_suspend_sram_fn s = NULL \<and> relocation_fails env"
  then show "at91_suspend_sram_fn (at91_pm_sram_init env s) = NULL"
    by (simp add: sram_init_fails)
next
  assume null: "at91_suspend_sram_fn (at91_pm_sram_init env s) = NULL"
  then show "Suspend_set_ops \<notin> set (new_events s (at91_pm_init env s))"
    by (simp add: pm_init_registration)
  from null show "last (trace (at91_pm_init env s)) = Pr_info_pm_not_supported"
    by (simp add: at91_pm_init_def Let_def emit_def)
  show "(Platform_device_register \<in> set (new_events s (at91_pm_init env s))) =
        (cpuidle_platform_data s \<noteq> NULL)"
    by (rule pm_init_cpuidle)
qed

theorem sram_failure_disables_suspend_witness:
  "at91_suspend_sram_fn boot_state = NULL \<and> relocation_fails (sample_env []) \<and>
   at91_suspend_sram_fn (at91_pm_sram_init (sample_env []) boot_state) = NULL \<and>
   trace (at91_pm_init (sample_env []) boot_state) =
     [Pr_warn Sram_no_device, Pr_info_pm_not_supported] \<and>
   relocation_fails (sample_env [NULL, 0xc0a00400]) \<and>
   at91_suspend_sram_fn (at91_pm_sram_init (sample_env [NULL, 0xc0a00400]) boot_state) = NULL \<and>
   trace (at91_pm_init (sample_env [NULL, 0xc0a00400]) boot_state) =
     [Pr_warn Sram_pool_unavailable, Pr_info_pm_not_supported]"
proof -
  have boot: "at91_suspend_sram_fn boot_state = NULL"
    by (simp add: boot_state_def)
  have f1: "relocation_fails (sample_env [])"
    by (simp add: relocation_fails_def sample_env_def)
  have f2: "relocation_fails (sample_env [NULL, 0xc0a00400])"
    by (simp add: relocation_fails_def sample_env_def NULL_def)
  have tr: "trace boot_state = []" "cpuidle_platform_data boot_state = NULL"
    by (simp_all add: boot_state_def)
  from sram_failure_disables_suspend [of boot_state "sample_env []"]
    sram_failure_disables_suspend [of boot_state "sample_env [NULL, 0xc0a00400]"]
    boot f1 f2
  show ?thesis
    by (simp add: at91_pm_init_def sample_env_no_node emit_def tr boot)
qed

subsection \<open>Memory-controller discovery\<close>

text \<open>
  C6. If discovery finds no node matching a supported memory controller, initialisation
  panics and does not continue: \<open>at91_dt_ramc\<close> and every per-variant initialiser end with
  the panic. If matching nodes are found (within the two entries of the array, all of
  them mapped) but none declares a standby routine, the run goes on and only a warning is
  emitted.
\<close>

theorem dt_ramc_fatal_or_warning:
  "at91_dt_ramc [] s = Inl Panic_no_ramc_node \<and>
   at91rm9200_pm_init v env [] s = Inl Panic_no_ramc_node \<and>
   at91sam9260_pm_init v env [] s = Inl Panic_no_ramc_node \<and>
   at91sam9g45_pm_init v env [] s = Inl Panic_no_ramc_node \<and>
   at91sam9x5_pm_init v env [] s = Inl Panic_no_ramc_node \<and>
   sam5d3_pm_init v env [] s = Inl Panic_no_ramc_node \<and>
   sam5d4_pm_init v env [] s = Inl Panic_no_ramc_node \<and>
   (ms \<noteq> [] \<and> length ms \<le> 2 \<and> list_all mapped ms \<and> list_all no_standby ms \<longrightarrow>
      (\<exists>s'. at91_dt_ramc ms s = Inr s' \<and> new_events s s' = [Pr_warn Ramc_no_standby] \<and>
            cpuidle_platform_data s' = cpuidle_platform_data s))"
proof -
  have empty: "at91_dt_ramc [] s = Inl Panic_no_ramc_node"
    by (simp add: at91_dt_ramc_def)
  have warn: "\<exists>s'. at91_dt_ramc ms s = Inr s' \<and> new_events s s' = [Pr_warn Ramc_no_standby] \<and>
            cpuidle_platform_data s' = cpuidle_platform_data s"
    if h: "ms \<noteq> [] \<and> length ms \<le> 2 \<and> list_all mapped ms \<and> list_all no_standby ms"
  proof -
    from h have m: "list_all mapped ms" and l: "0 + length ms \<le> 2" and ne: "length ms \<noteq> 0"
      and ns: "first_standby NULL ms = NULL"
      by (simp_all add: first_standby_none)
    from dt_ramc_loop_prefix [OF m l, of "[]" NULL s]
    obtain s' where "dt_ramc_loop ms 0 NULL s = Inr (length ms, NULL, s')"
      "trace s' = trace s" "cpuidle_platform_data s' = cpuidle_platform_data s"
      using ns by auto
    then show ?thesis
      using ne by (simp add: at91_dt_ramc_def new_events_def emit_def)
  qed
  show ?thesis
    using empty warn
    by (simp add: at91rm9200_pm_init_def at91sam9260_pm_init_def at91sam9g45_pm_init_def
        at91sam9x5_pm_init_def sam5d3_pm_init_def sam5d4_pm_init_def)
qed

theorem dt_ramc_fatal_or_warning_witness:
  "[sample_ramc 0xfeffea00 NULL] \<noteq> [] \<and> length [sample_ramc 0xfeffea00 NULL] \<le> 2 \<and>
   list_all mapped [sample_ramc 0xfeffea00 NULL] \<and>
   list_all no_standby [sample_ramc 0xfeffea00 NULL] \<and>
   (\<exists>s'. at91_dt_ramc [sample_ramc 0xfeffea00 NULL] boot_state = Inr s' \<and>
         new_events boot_state s' = [Pr_warn Ramc_no_standby] \<and>
         cpuidle_platform_data s' = NULL) \<and>
   at91_dt_ramc [] boot_state = Inl Panic_no_ramc_node"
proof -
  have h: "[sample_ramc 0xfeffea00 NULL] \<noteq> [] \<and> length [sample_ramc 0xfeffea00 NULL] \<le> 2 \<and>
     list_all mapped [sample_ramc 0xfeffea00 NULL] \<and>
     list_all no_standby [sample_ramc 0xfeffea00 NULL]"
    by (simp add: mapped_def no_standby_def sample_ramc_def NULL_def)
  have boot: "cpuidle_platform_data boot_state = NULL"
    by (simp add: boot_state_def)
  from dt_ramc_fatal_or_warning [of boot_state _ _ "[sample_ramc 0xfeffea00 NULL]"] h
  show ?thesis
    unfolding boot by blast
qed

text \<open>
  C10. If a matching node is found but mapping its registers fails, initialisation ends
  fatally instead of degrading: with the panic \<^verbatim>\<open>unable to map ramc[idx]\<close> when the node is
  the first or the second one. From the third node on, the store into the two-entry
  array comes before the test.
\<close>

theorem dt_ramc_map_failure_panics:
  assumes "list_all mapped pre" and "of_iomap m = NULL"
  shows "at91_dt_ramc (pre @ m # post) s =
           Inl (if length pre < 2 then Panic_unable_to_map_ramc (length pre)
                else Ramc_base_out_of_bounds 2)"
proof (cases "length pre < 2")
  case True
  then have l: "0 + length pre \<le> 2" by simp
  from dt_ramc_loop_prefix [OF assms(1) l, of "m # post" NULL s]
  obtain s' where "dt_ramc_loop (pre @ m # post) 0 NULL s =
      dt_ramc_loop (m # post) (length pre) (first_standby NULL pre) s'"
    by auto
  moreover from ramc_base_store_ok [OF True, of "of_iomap m" s']
  obtain s1 where "ramc_base_store (length pre) (of_iomap m) s' = Inr s1" by blast
  ultimately show ?thesis
    using True assms(2) by (simp add: at91_dt_ramc_def)
next
  case False
  then have ge: "2 \<le> length pre" by simp
  have "dt_ramc_loop (pre @ m # post) 0 NULL s = Inl (Ramc_base_out_of_bounds 2)"
  proof (cases "length pre = 2")
    case True
    then have l: "0 + length pre \<le> 2" by simp
    from dt_ramc_loop_prefix [OF assms(1) l, of "m # post" NULL s]
    obtain s' where "dt_ramc_loop (pre @ m # post) 0 NULL s =
        dt_ramc_loop (m # post) (length pre) (first_standby NULL pre) s'"
      by auto
    then show ?thesis
      using True by (simp add: ramc_base_store_def)
  next
    case False
    with ge have "2 < 0 + length pre" by simp
    from dt_ramc_loop_overflow [OF assms(1) _ this] show ?thesis by simp
  qed
  then show ?thesis
    using False by (simp add: at91_dt_ramc_def)
qed

theorem dt_ramc_map_failure_panics_witness:
  "list_all mapped [sample_ramc 0xfeffea00 0xc0012340] \<and>
   of_iomap (sample_ramc NULL 0xc0012340) = NULL \<and>
   at91_dt_ramc [sample_ramc 0xfeffea00 0xc0012340, sample_ramc NULL 0xc0012340] boot_state =
     Inl (Panic_unable_to_map_ramc 1) \<and>
   list_all mapped [] \<and>
   at91_dt_ramc [sample_ramc NULL 0xc0012340] boot_state = Inl (Panic_unable_to_map_ramc 0)"
proof -
  have h1: "list_all mapped [sample_ramc 0xfeffea00 0xc0012340]"
    by (simp add: mapped_def sample_ramc_def NULL_def)
  have h2: "of_iomap (sample_ramc NULL 0xc0012340) = NULL"
    by (simp add: sample_ramc_def)
  have h0: "list_all mapped []"
    by simp
  from dt_ramc_map_failure_panics [OF h1 h2, of "[]" boot_state]
    dt_ramc_map_failure_panics [OF h0 h2, of "[]" boot_state] h1 h2
  show ?thesis
    by simp
qed

text \<open>
  C7. Discovery should store at most two base addresses, the write index never leaving the
  two-entry array \<open>at91_ramc_base\<close>. The loop has no test of \<open>idx\<close>: with three matching,
  mapped nodes the third store is at index 2, past the end of the array.
\<close>

theorem dt_ramc_third_node_out_of_bounds:
  "at91_dt_ramc [sample_ramc 0xfeffea00 0xc0012340, sample_ramc 0xfeffe800 0xc0012340,
                 sample_ramc 0xfeffe600 0xc0012340] boot_state =
     Inl (Ramc_base_out_of_bounds 2)"
  by (simp add: at91_dt_ramc_def ramc_base_store_def sample_ramc_def NULL_def)

end
